theory Spec2Isabelle
  imports Main
begin

section \<open>The cluster coordinator of kandalf (cluster/cluster.go)\<close>

subsection \<open>Errors and the local network interfaces\<close>

text \<open>
  A Go \<open>error\<close> value is its message. The two return values of a Go function
  \<open>(result string, err error)\<close> are a pair of a string and an \<open>error option\<close>,
  \<open>None\<close> being the nil error.
\<close>

datatype error = Error string

text \<open>
  \<open>net.Addr\<close> is an interface; the type switch of \<open>getFirstLocalAddr\<close> tells
  \<open>*net.IPNet\<close> and \<open>*net.IPAddr\<close> from every other implementation. The string carried
  by the first two is the text \<open>v.IP.String()\<close> of the standard library.
\<close>

datatype addr = IPNet string | IPAddr string | OtherAddr

text \<open>
  A \<open>net.Interface\<close>, with what its method \<open>Addrs()\<close> answers: an error or the list of
  the addresses bound to it.
\<close>

datatype iface = Interface (Name: string) (Addrs: "error + addr list")

subsection \<open>getFirstLocalAddr\<close>

text \<open>
  The inner loop over the addresses of one interface. \<open>result\<close> is the named
  result variable of the function, which the loop assigns; \<open>break\<close> leaves this loop only.
\<close>

fun scanAddrs :: "addr list \<Rightarrow> string \<Rightarrow> string" where
  "scanAddrs [] result = result"
| "scanAddrs (a # addrs) result =
     (let result = (case a of IPNet ip \<Rightarrow> ip | IPAddr ip \<Rightarrow> ip | OtherAddr \<Rightarrow> result)
      in if length result > 0 then result else scanAddrs addrs result)"

text \<open>
  The outer loop over the interfaces: an interface whose \<open>Addrs()\<close> fails is passed over
  with \<open>continue\<close>, and the loop goes on to the next interface after the inner loop ends.
\<close>

fun scanIfaces :: "iface list \<Rightarrow> string \<Rightarrow> string" where
  "scanIfaces [] result = result"
| "scanIfaces (i # ifaces) result =
     (case Addrs i of
        Inl err \<Rightarrow> scanIfaces ifaces result
      | Inr addrs \<Rightarrow> scanIfaces ifaces (scanAddrs addrs result))"

text \<open>
  The argument is what \<open>net.Interfaces()\<close> answers. When it fails the function returns
  at once with the named results as they are: the empty string and that error.
\<close>

definition getFirstLocalAddr :: "error + iface list \<Rightarrow> string \<times> error option" where
  "getFirstLocalAddr interfaces =
     (case interfaces of
        Inl err \<Rightarrow> ([], Some err)
      | Inr ifaces \<Rightarrow>
          (let result = scanIfaces ifaces []
           in if length result = 0
              then ([], Some (Error ''Unable to find local address to bind''))
              else (result, None)))"

text \<open>The text of an address that the type switch recognises.\<close>

fun ipText :: "addr \<Rightarrow> string option" where
  "ipText (IPNet ip) = Some ip"
| "ipText (IPAddr ip) = Some ip"
| "ipText OtherAddr = None"

text \<open>The non-empty textual addresses that one interface exposes, in order.\<close>

definition yields :: "iface \<Rightarrow> string list" where
  "yields i =
     (case Addrs i of
        Inl err \<Rightarrow> []
      | Inr addrs \<Rightarrow> filter (\<lambda>s. s \<noteq> []) (List.map_filter ipText addrs))"

text \<open>
  \<open>net.IP.String()\<close> never answers the empty string (a nil address prints as
  \<open><nil>\<close>): the enumerations the system can produce satisfy \<open>textsNonEmpty\<close>.
\<close>

definition textsNonEmpty :: "iface list \<Rightarrow> bool" where
  "textsNonEmpty ifaces =
     list_all (\<lambda>i. case Addrs i of
                     Inl err \<Rightarrow> True
                   | Inr addrs \<Rightarrow> list_all (\<lambda>a. ipText a \<noteq> Some []) addrs) ifaces"

definition readable :: "iface \<Rightarrow> bool" where
  "readable i = (case Addrs i of Inl err \<Rightarrow> False | Inr addrs \<Rightarrow> True)"

text \<open>
  The resolver as its contract words it, beside the code: the first non-empty textual
  address in enumeration order, over all interfaces.
\<close>

definition specFirstAddress :: "iface list \<Rightarrow> string option" where
  "specFirstAddress ifaces =
     (case concat (map yields ifaces) of [] \<Rightarrow> None | s # rest \<Rightarrow> Some s)"

subsection \<open>Settings and the collaborators of NewCluster\<close>

text \<open>
  The values that the configuration source answers for the six keys read at the top of
  \<open>NewCluster\<close> (each already with its default applied by \<open>UString\<close> or \<open>UInt\<close>).
\<close>

record settings =
  bind_host :: string
  bind_port :: int
  data_dir :: string
  max_pool :: int
  nb_snapshot :: int
  timeout :: string

text \<open>
  The handles that the constructors of the network and consensus libraries answer.
  A \<open>time.Duration\<close> is a number of nanoseconds.
\<close>

datatype tcp_addr = TCPAddr string
datatype snapshot_store = FileSnapshotStore string int
datatype bolt_store = BoltStore string
datatype transport = TCPTransport string tcp_addr int int
datatype peer_store = JSONPeers string transport

record raft_config =
  EnableSingleNode :: bool
  DisableBootstrapAfterElect :: bool

datatype raft = Raft raft_config bolt_store bolt_store snapshot_store peer_store transport

text \<open>
  What the library calls of \<open>NewCluster\<close> answer in a given run: each fallible call
  answers an error or its handle, \<open>SetPeers\<close> answers an error or nil. The placeholder
  state machine \<open>newFsm()\<close> and the log writer, which cannot fail, are left out of the
  arguments.
\<close>

record world =
  ParseDuration :: "string \<Rightarrow> error + int"
  Interfaces :: "error + iface list"
  ResolveTCPAddr :: "string \<Rightarrow> error + tcp_addr"
  NewFileSnapshotStore :: "string \<Rightarrow> int \<Rightarrow> error + snapshot_store"
  Join :: "string \<Rightarrow> string \<Rightarrow> string"
  NewBoltStore :: "string \<Rightarrow> error + bolt_store"
  NewTCPTransport :: "string \<Rightarrow> tcp_addr \<Rightarrow> int \<Rightarrow> int \<Rightarrow> error + transport"
  SetPeers :: "peer_store \<Rightarrow> string list \<Rightarrow> error option"
  DefaultConfig :: raft_config
  NewRaft :: "raft_config \<Rightarrow> bolt_store \<Rightarrow> bolt_store \<Rightarrow> snapshot_store \<Rightarrow>
              peer_store \<Rightarrow> transport \<Rightarrow> error + raft"

text \<open>The calls a run makes, in order, with their arguments.\<close>

datatype call =
    ParseDurationCall string
  | GetFirstLocalAddrCall
  | ResolveTCPAddrCall string
  | NewFileSnapshotStoreCall string int
  | NewBoltStoreCall string
  | NewTCPTransportCall string tcp_addr int int
  | NewJSONPeersCall string transport
  | SetPeersCall peer_store "string list"
  | NewRaftCall raft_config bolt_store bolt_store snapshot_store peer_store transport

text \<open>
  \<open>logger.Instance().WithError(err).Fatal(msg)\<close> logs and ends the process: the run of
  \<open>NewCluster\<close> stops there with that message and error.
\<close>

datatype fatal = Fatal string error

text \<open>
  The \<open>Cluster\<close> struct, by its engine handle; the mutex and the embedded runnable worker,
  whose flag \<open>IsWorking\<close> the lifecycle loop reads, are set after the last fallible call.
\<close>

record cluster =
  raft :: raft

definition Second :: int where
  "Second = 1000000000"

subsection \<open>Formatting the bind string\<close>

text \<open>The verb \<open>%d\<close> of \<open>fmt.Sprintf\<close>: the decimal digits, with a sign when negative.\<close>

fun natDigits :: "nat \<Rightarrow> string" where
  "natDigits n =
     (if n < 10 then [''0123456789'' ! n]
      else natDigits (n div 10) @ [''0123456789'' ! (n mod 10)])"

declare natDigits.simps [simp del]

definition formatInt :: "int \<Rightarrow> string" where
  "formatInt i = (if i < 0 then ''-'' @ natDigits (nat (- i)) else natDigits (nat i))"

text \<open>\<open>fmt.Sprintf("%s:%d", host, port)\<close>\<close>

definition sprintfHostPort :: "string \<Rightarrow> int \<Rightarrow> string" where
  "sprintfHostPort host port = host @ '':'' @ formatInt port"

subsection \<open>NewCluster\<close>

text \<open>
  The timeout: the parsed duration, or ten seconds when the parse fails. The error
  of the parse is overwritten by the next assignment to \<open>err\<close> before any test of it.
\<close>

definition clusterTimeoutOf :: "settings \<Rightarrow> world \<Rightarrow> int" where
  "clusterTimeoutOf s w =
     (case ParseDuration w (timeout s) of
        Inl err \<Rightarrow> 10 * Second
      | Inr d \<Rightarrow> d)"

text \<open>
  The election policy: the default configuration of the engine, changed only for a
  peer list of at most one entry.
\<close>

definition electionConfig :: "raft_config \<Rightarrow> string list \<Rightarrow> raft_config" where
  "electionConfig cnf clusterNodes =
     (if length clusterNodes \<le> 1
      then cnf\<lparr>EnableSingleNode := True, DisableBootstrapAfterElect := False\<rparr>
      else cnf)"

text \<open>
  A run of a piece of the constructor answers the calls it made, in order, and either
  the fatal exit or its value.
\<close>

type_synonym 'a run = "call list \<times> (fatal + 'a)"

text \<open>A call that cannot fail, or whose failure the source does not look at.\<close>

definition invoke :: "call \<Rightarrow> 'a \<Rightarrow> 'a run" where
  "invoke c answer = ([c], Inr answer)"

text \<open>
  A call followed by \<open>if err != nil { logger.Instance().WithError(err).Fatal(msg) }\<close>.
\<close>

definition attempt :: "call \<Rightarrow> string \<Rightarrow> error + 'a \<Rightarrow> 'a run" where
  "attempt c msg answer =
     ([c], case answer of Inl err \<Rightarrow> Inl (Fatal msg err) | Inr x \<Rightarrow> Inr x)"

text \<open>Sequencing: after a fatal exit nothing more runs.\<close>

definition andThen :: "'a run \<Rightarrow> ('a \<Rightarrow> 'b run) \<Rightarrow> 'b run" where
  "andThen m k =
     (case snd m of
        Inl f \<Rightarrow> (fst m, Inl f)
      | Inr x \<Rightarrow> (fst m @ fst (k x), snd (k x)))"

text \<open>
  The bind host: the configured one, or the one of \<open>getFirstLocalAddr\<close> when the
  configured one is empty.
\<close>

definition resolveBindHost :: "string \<Rightarrow> world \<Rightarrow> string run" where
  "resolveBindHost clusterBindHost w =
     (if length clusterBindHost = 0
      then (case getFirstLocalAddr (Interfaces w) of
              (result, Some err) \<Rightarrow>
                ([GetFirstLocalAddrCall],
                 Inl (Fatal ''An error occured while getting local address'' err))
            | (result, None) \<Rightarrow> ([GetFirstLocalAddrCall], Inr result))
      else ([], Inr clusterBindHost))"

text \<open>
  The whole constructor, statement by statement. The answer of \<open>SetPeers\<close> is not
  bound to any variable in the source.
\<close>

definition NewCluster :: "settings \<Rightarrow> world \<Rightarrow> string list \<Rightarrow> cluster run" where
  "NewCluster s w clusterNodes =
     (let clusterBindHost = bind_host s;
          clusterBindPort = bind_port s;
          clusterDataDir = data_dir s;
          clusterMaxPool = max_pool s;
          clusterNbSnapshot = nb_snapshot s
      in
      andThen (invoke (ParseDurationCall (timeout s)) (clusterTimeoutOf s w)) (\<lambda>clusterTimeout.
      andThen (resolveBindHost clusterBindHost w) (\<lambda>clusterBindHost.
      let clusterBind = sprintfHostPort clusterBindHost clusterBindPort in
      andThen (attempt (ResolveTCPAddrCall clusterBind)
                 ''An error occured while resolving address''
                 (ResolveTCPAddr w clusterBind)) (\<lambda>addr.
      andThen (attempt (NewFileSnapshotStoreCall clusterDataDir clusterNbSnapshot)
                 ''An error occurred while creating snapshots storage''
                 (NewFileSnapshotStore w clusterDataDir clusterNbSnapshot)) (\<lambda>snapshots.
      let boltPath = Join w clusterDataDir ''raft.db'' in
      andThen (attempt (NewBoltStoreCall boltPath)
                 ''An error occurred while creating BoltDB store''
                 (NewBoltStore w boltPath)) (\<lambda>boltStore.
      andThen (attempt (NewTCPTransportCall clusterBind addr clusterMaxPool clusterTimeout)
                 ''An error occurred while creating raft TCP transport''
                 (NewTCPTransport w clusterBind addr clusterMaxPool clusterTimeout)) (\<lambda>transport.
      andThen (invoke (NewJSONPeersCall clusterDataDir transport)
                 (JSONPeers clusterDataDir transport)) (\<lambda>peerStore.
      andThen (invoke (SetPeersCall peerStore clusterNodes)
                 (SetPeers w peerStore clusterNodes)) (\<lambda>ignored.
      let cnf = electionConfig (DefaultConfig w) clusterNodes in
      andThen (attempt (NewRaftCall cnf boltStore boltStore snapshots peerStore transport)
                 ''An error occurred while instantiating raft''
                 (NewRaft w cnf boltStore boltStore snapshots peerStore transport)) (\<lambda>ra.
      ([], Inr \<lparr>raft = ra\<rparr>)))))))))))"

subsection \<open>The lifecycle loop\<close>

text \<open>
  \<open>IsWorking\<close> is the liveness flag as the other tasks leave it at each instant of a
  clock in nanoseconds; \<open>cycle\<close> is the constant \<open>config.InfiniteCycleTimeout\<close>.
  \<open>Sleep now d\<close> is the instant at which a call \<open>time.Sleep(d)\<close> made at the instant
  \<open>now\<close> returns and the loop tests the flag again: the library pauses for at least \<open>d\<close>,
  how much longer is the scheduler's. The loop answers the instant at which it ends, and
  \<open>None\<close> when it never ends.
\<close>

partial_function (option) pollLoop ::
  "(nat \<Rightarrow> bool) \<Rightarrow> (nat \<Rightarrow> nat \<Rightarrow> nat) \<Rightarrow> nat \<Rightarrow> nat \<Rightarrow> nat option" where
  "pollLoop IsWorking Sleep cycle now =
     (if IsWorking now then pollLoop IsWorking Sleep cycle (Sleep now cycle) else Some now)"

datatype task = ListenForLeadershipTask

text \<open>\<open>doRun\<close> starts the watcher as a task of its own and then polls.\<close>

definition doRun ::
  "(nat \<Rightarrow> bool) \<Rightarrow> (nat \<Rightarrow> nat \<Rightarrow> nat) \<Rightarrow> nat \<Rightarrow> nat \<Rightarrow> task list \<times> nat option" where
  "doRun IsWorking Sleep cycle now =
     ([ListenForLeadershipTask], pollLoop IsWorking Sleep cycle now)"

text \<open>The instant of the \<open>k\<close>-th wake of a loop started at \<open>now\<close>, the start being wake 0.\<close>

fun wakeAt :: "(nat \<Rightarrow> nat \<Rightarrow> nat) \<Rightarrow> nat \<Rightarrow> nat \<Rightarrow> nat \<Rightarrow> nat" where
  "wakeAt Sleep cycle now 0 = now"
| "wakeAt Sleep cycle now (Suc k) = wakeAt Sleep cycle (Sleep now cycle) k"

text \<open>
  The latency bound as the contract words it: \<open>doRun\<close> returns, and no later than one
  cycle interval after the instant \<open>cleared\<close> at which the flag was cleared.
\<close>

definition returnsWithinOneCycle ::
  "(nat \<Rightarrow> bool) \<Rightarrow> (nat \<Rightarrow> nat \<Rightarrow> nat) \<Rightarrow> nat \<Rightarrow> nat \<Rightarrow> nat \<Rightarrow> bool" where
  "returnsWithinOneCycle IsWorking Sleep cycle now cleared =
     (case snd (doRun IsWorking Sleep cycle now) of
        None \<Rightarrow> False
      | Some ret \<Rightarrow> cleared \<le> ret \<and> ret \<le> cleared + cycle)"

text \<open>
  Three runs with a cycle of 10: a flag cleared at instant 1 with sleeps that end two
  ticks late, a flag cleared at instant 25 with sleeps that end on time, and a flag
  that is never cleared.
\<close>

definition lateSleep :: "nat \<Rightarrow> nat \<Rightarrow> nat" where
  "lateSleep now d = now + d + 2"

definition exactSleep :: "nat \<Rightarrow> nat \<Rightarrow> nat" where
  "exactSleep now d = now + d"

definition clearedAt :: "nat \<Rightarrow> nat \<Rightarrow> bool" where
  "clearedAt cleared t = (t < cleared)"

definition neverCleared :: "nat \<Rightarrow> bool" where
  "neverCleared t = True"

subsection \<open>The leadership watcher\<close>

text \<open>
  What the watcher does to workers. \<open>NewWorker\<close> is the call of \<open>workers.NewWorker()\<close>,
  whose answer is the parameter \<open>new\<close> below; \<open>StopWorker\<close> is the clearing of the two
  \<open>IsWorking\<close> flags of the old worker; \<open>RunWorker\<close> is the call of \<open>Run\<close>.
\<close>

datatype 'w action = StopWorker 'w | NewWorker | RunWorker 'w

text \<open>The two local variables, at their zero values after the \<open>var\<close> block.\<close>

record 'w locals =
  becameLeader :: bool
  worker :: "'w option"

definition declared :: "'w locals" where
  "declared = \<lparr>becameLeader = False, worker = None\<rparr>"

text \<open>
  The receive \<open>becameLeader = <-cl.raft.LeaderCh()\<close>. The channel is the list of the values
  it will deliver, in order; on a channel that never delivers, the receive blocks for ever
  (\<open>None\<close>). It answers the locals after the receive and what is left in the channel.
\<close>

definition receive :: "'w locals \<Rightarrow> bool list \<Rightarrow> ('w locals \<times> bool list) option" where
  "receive vars LeaderCh =
     (case LeaderCh of
        [] \<Rightarrow> None
      | v # rest \<Rightarrow> Some (vars\<lparr>becameLeader := v\<rparr>, rest))"

text \<open>The body of \<open>if becameLeader\<close>, from the locals at the guard \<open>worker != nil\<close>.\<close>

definition onLeader :: "'w \<Rightarrow> 'w locals \<Rightarrow> 'w action list \<times> 'w locals" where
  "onLeader new vars =
     (let stopped = (case worker vars of None \<Rightarrow> [] | Some old \<Rightarrow> [StopWorker old]);
          vars = vars\<lparr>worker := Some new\<rparr>
      in (stopped @ [NewWorker, RunWorker new], vars))"

text \<open>
  The watcher answers what it did and what it left in the channel, and \<open>None\<close> when it
  blocks for ever.
\<close>

definition listenForLeadership :: "'w \<Rightarrow> bool list \<Rightarrow> ('w action list \<times> bool list) option" where
  "listenForLeadership new LeaderCh =
     (case receive declared LeaderCh of
        None \<Rightarrow> None
      | Some (vars, rest) \<Rightarrow>
          if becameLeader vars
          then Some (fst (onLeader new vars), rest)
          else Some ([], rest))"

subsection \<open>A concrete node\<close>

text \<open>
  A host with a loopback and an Ethernet interface, libraries whose calls all succeed,
  the engine's default configuration (no single-node mode), and a configuration source
  with a bind host and a timeout that does not parse.
\<close>

definition exampleIfaces :: "iface list" where
  "exampleIfaces =
     [Interface ''lo'' (Inr [IPNet ''127.0.0.1'']),
      Interface ''eth0'' (Inr [IPNet ''192.168.1.5''])]"

definition exampleSettings :: settings where
  "exampleSettings =
     \<lparr>bind_host = ''10.0.0.1'', bind_port = 11291, data_dir = ''/var/lib/kandalf'',
      max_pool = 3, nb_snapshot = 2, timeout = ''not-a-duration''\<rparr>"

definition exampleWorld :: world where
  "exampleWorld =
     \<lparr>ParseDuration = (\<lambda>x. if x = ''10s'' then Inr (10 * Second)
                            else Inl (Error ''time: invalid duration'')),
      Interfaces = Inr exampleIfaces,
      ResolveTCPAddr = (\<lambda>b. Inr (TCPAddr b)),
      NewFileSnapshotStore = (\<lambda>d n. Inr (FileSnapshotStore d n)),
      Join = (\<lambda>d f. d @ ''/'' @ f),
      NewBoltStore = (\<lambda>p. Inr (BoltStore p)),
      NewTCPTransport = (\<lambda>b a p t. Inr (TCPTransport b a p t)),
      SetPeers = (\<lambda>p n. None),
      DefaultConfig = \<lparr>EnableSingleNode = False, DisableBootstrapAfterElect = True\<rparr>,
      NewRaft = (\<lambda>c l st sn p t. Inr (Raft c l st sn p t))\<rparr>"

text \<open>
  The same host with a tunnel interface whose addresses cannot be read, and a host
  whose only readable interface has no IP address.
\<close>

definition exampleIfacesUnreadable :: "iface list" where
  "exampleIfacesUnreadable =
     Interface ''tun0'' (Inl (Error ''route ip+net: no such network interface'')) # exampleIfaces"

definition exampleIfacesNoAddress :: "iface list" where
  "exampleIfacesNoAddress =
     [Interface ''tun0'' (Inl (Error ''route ip+net: no such network interface'')),
      Interface ''dummy0'' (Inr [OtherAddr])]"

text \<open>The same libraries, except that writing the peer file fails.\<close>

definition exampleWorldPeersFail :: world where
  "exampleWorldPeersFail =
     exampleWorld\<lparr>SetPeers :=
       (\<lambda>p n. Some (Error ''open /var/lib/kandalf/peers.json: permission denied''))\<rparr>"

subsection \<open>Properties of getFirstLocalAddr\<close>

lemma scanAddrs_keeps_nonempty:
  "list_all (\<lambda>a. ipText a \<noteq> Some []) addrs \<Longrightarrow> r \<noteq> [] \<Longrightarrow> scanAddrs addrs r \<noteq> []"
  by (cases addrs) (auto split: addr.splits)

lemma scanAddrs_from_empty:
  "list_all (\<lambda>a. ipText a \<noteq> Some []) addrs \<Longrightarrow>
   (scanAddrs addrs [] = []) = (List.map_filter ipText addrs = [])"
  by (induction addrs) (auto split: addr.splits)

lemma filter_nonempty_texts:
  "list_all (\<lambda>a. ipText a \<noteq> Some []) addrs \<Longrightarrow>
   filter (\<lambda>s. s \<noteq> []) (List.map_filter ipText addrs) = List.map_filter ipText addrs"
  by (induction addrs) (auto split: option.splits)

lemma scanIfaces_keeps_nonempty:
  "textsNonEmpty ifaces \<Longrightarrow> r \<noteq> [] \<Longrightarrow> scanIfaces ifaces r \<noteq> []"
proof (induction ifaces arbitrary: r)
  case Nil
  then show ?case by simp
next
  case (Cons i ifaces)
  then show ?case
    by (cases "Addrs i") (auto simp: textsNonEmpty_def scanAddrs_keeps_nonempty)
qed

lemma scanIfaces_from_empty:
  "textsNonEmpty ifaces \<Longrightarrow>
   (scanIfaces ifaces [] = []) = (\<forall>i \<in> set ifaces. yields i = [])"
proof (induction ifaces)
  case Nil
  then show ?case by simp
next
  case (Cons i ifaces)
  have rest: "textsNonEmpty ifaces"
    using Cons.prems by (simp add: textsNonEmpty_def)
  show ?case
  proof (cases "Addrs i")
    case (Inl err)
    then show ?thesis using Cons.IH [OF rest] by (simp add: yields_def)
  next
    case (Inr addrs)
    have texts: "list_all (\<lambda>a. ipText a \<noteq> Some []) addrs"
      using Cons.prems Inr by (simp add: textsNonEmpty_def)
    show ?thesis
    proof (cases "scanAddrs addrs [] = []")
      case True
      then have "yields i = []"
        using Inr texts by (simp add: yields_def scanAddrs_from_empty)
      then show ?thesis using Inr True Cons.IH [OF rest] by simp
    next
      case False
      then have "yields i \<noteq> []"
        using Inr texts by (simp add: yields_def scanAddrs_from_empty filter_nonempty_texts)
      moreover have "scanIfaces ifaces (scanAddrs addrs []) \<noteq> []"
        using rest False by (rule scanIfaces_keeps_nonempty)
      ultimately show ?thesis using Inr by simp
    qed
  qed
qed

lemma scanIfaces_skips_unreadable:
  "scanIfaces (filter readable ifaces) r = scanIfaces ifaces r"
proof (induction ifaces arbitrary: r)
  case Nil
  then show ?case by simp
next
  case (Cons i ifaces)
  then show ?case by (cases "Addrs i") (simp_all add: readable_def)
qed

subsection \<open>Properties of runs\<close>

lemma in_calls_andThen:
  "c \<in> set (fst (andThen m k)) \<longleftrightarrow>
     c \<in> set (fst m) \<or> (\<exists>x. snd m = Inr x \<and> c \<in> set (fst (k x)))"
  by (cases "snd m") (simp_all add: andThen_def)

lemma value_andThen:
  "snd (andThen m k) = Inr y \<longleftrightarrow> (\<exists>x. snd m = Inr x \<and> snd (k x) = Inr y)"
  by (cases "snd m") (simp_all add: andThen_def)

lemma calls_invoke: "fst (invoke c a) = [c]"
  by (simp add: invoke_def)

lemma value_invoke: "snd (invoke c a) = Inr a"
  by (simp add: invoke_def)

lemma calls_attempt: "fst (attempt c msg a) = [c]"
  by (simp add: attempt_def)

lemma value_attempt: "snd (attempt c msg a) = Inr x \<longleftrightarrow> a = Inr x"
  by (cases a) (simp_all add: attempt_def)

lemma calls_resolveBindHost:
  "set (fst (resolveBindHost h w)) = (if h = [] then {GetFirstLocalAddrCall} else {})"
  by (simp add: resolveBindHost_def split: prod.splits option.splits)

lemma value_resolveBindHost:
  "snd (resolveBindHost h w) = Inr x \<longleftrightarrow>
     (if h = [] then getFirstLocalAddr (Interfaces w) = (x, None) else x = h)"
  by (auto simp add: resolveBindHost_def split: prod.splits option.splits)

lemmas run_simps = in_calls_andThen value_andThen calls_invoke value_invoke calls_attempt
  value_attempt calls_resolveBindHost value_resolveBindHost

lemmas run_defs = NewCluster_def Let_def andThen_def invoke_def attempt_def resolveBindHost_def
  clusterTimeoutOf_def electionConfig_def sprintfHostPort_def formatInt_def natDigits.simps
  Second_def getFirstLocalAddr_def

lemma sprintfHostPort_example: "sprintfHostPort ''10.0.0.1'' 11291 = ''10.0.0.1:11291''"
  by (simp add: sprintfHostPort_def formatInt_def natDigits.simps)

lemma exampleRun:
  "NewCluster exampleSettings exampleWorld [''10.0.0.1:11291''] =
     ([ParseDurationCall ''not-a-duration'',
       ResolveTCPAddrCall ''10.0.0.1:11291'',
       NewFileSnapshotStoreCall ''/var/lib/kandalf'' 2,
       NewBoltStoreCall ''/var/lib/kandalf/raft.db'',
       NewTCPTransportCall ''10.0.0.1:11291'' (TCPAddr ''10.0.0.1:11291'') 3 10000000000,
       NewJSONPeersCall ''/var/lib/kandalf''
         (TCPTransport ''10.0.0.1:11291'' (TCPAddr ''10.0.0.1:11291'') 3 10000000000),
       SetPeersCall
         (JSONPeers ''/var/lib/kandalf''
           (TCPTransport ''10.0.0.1:11291'' (TCPAddr ''10.0.0.1:11291'') 3 10000000000))
         [''10.0.0.1:11291''],
       NewRaftCall \<lparr>EnableSingleNode = True, DisableBootstrapAfterElect = False\<rparr>
         (BoltStore ''/var/lib/kandalf/raft.db'') (BoltStore ''/var/lib/kandalf/raft.db'')
         (FileSnapshotStore ''/var/lib/kandalf'' 2)
         (JSONPeers ''/var/lib/kandalf''
           (TCPTransport ''10.0.0.1:11291'' (TCPAddr ''10.0.0.1:11291'') 3 10000000000))
         (TCPTransport ''10.0.0.1:11291'' (TCPAddr ''10.0.0.1:11291'') 3 10000000000)],
      Inr \<lparr>raft = Raft \<lparr>EnableSingleNode = True, DisableBootstrapAfterElect = False\<rparr>
         (BoltStore ''/var/lib/kandalf/raft.db'') (BoltStore ''/var/lib/kandalf/raft.db'')
         (FileSnapshotStore ''/var/lib/kandalf'' 2)
         (JSONPeers ''/var/lib/kandalf''
           (TCPTransport ''10.0.0.1:11291'' (TCPAddr ''10.0.0.1:11291'') 3 10000000000))
         (TCPTransport ''10.0.0.1:11291'' (TCPAddr ''10.0.0.1:11291'') 3 10000000000)\<rparr>)"
  by (simp add: run_defs exampleWorld_def exampleSettings_def)

lemma exampleResolved:
  "getFirstLocalAddr (Interfaces exampleWorld) = (''192.168.1.5'', None)"
  by (simp add: getFirstLocalAddr_def exampleWorld_def exampleIfaces_def)

text \<open>
  A run that returns a cluster has seen every call whose error the source tests succeed,
  whereas what \<open>SetPeers\<close> answers has no influence on the run.
\<close>

lemma NewCluster_success_needs_checked_calls:
  assumes "snd (NewCluster s w clusterNodes) = Inr c"
  shows "(bind_host s = [] \<longrightarrow> snd (getFirstLocalAddr (Interfaces w)) = None) \<and>
         (\<forall>b. ResolveTCPAddrCall b \<in> set (fst (NewCluster s w clusterNodes)) \<longrightarrow>
              \<not> isl (ResolveTCPAddr w b)) \<and>
         (\<forall>d n. NewFileSnapshotStoreCall d n \<in> set (fst (NewCluster s w clusterNodes)) \<longrightarrow>
              \<not> isl (NewFileSnapshotStore w d n)) \<and>
         (\<forall>p. NewBoltStoreCall p \<in> set (fst (NewCluster s w clusterNodes)) \<longrightarrow>
              \<not> isl (NewBoltStore w p)) \<and>
         (\<forall>b a p t. NewTCPTransportCall b a p t \<in> set (fst (NewCluster s w clusterNodes)) \<longrightarrow>
              \<not> isl (NewTCPTransport w b a p t)) \<and>
         (\<forall>cnf l st sn p t. NewRaftCall cnf l st sn p t \<in> set (fst (NewCluster s w clusterNodes)) \<longrightarrow>
              \<not> isl (NewRaft w cnf l st sn p t))"
proof -
  have host: "bind_host s = [] \<longrightarrow> snd (getFirstLocalAddr (Interfaces w)) = None"
    using assms by (auto simp: NewCluster_def Let_def run_simps split: if_splits)
  have addr: "\<forall>b. ResolveTCPAddrCall b \<in> set (fst (NewCluster s w clusterNodes)) \<longrightarrow>
              \<not> isl (ResolveTCPAddr w b)"
    using assms by (auto simp: NewCluster_def Let_def run_simps split: if_splits)
  have snap: "\<forall>d n. NewFileSnapshotStoreCall d n \<in> set (fst (NewCluster s w clusterNodes)) \<longrightarrow>
              \<not> isl (NewFileSnapshotStore w d n)"
    using assms by (auto simp: NewCluster_def Let_def run_simps split: if_splits)
  have bolt: "\<forall>p. NewBoltStoreCall p \<in> set (fst (NewCluster s w clusterNodes)) \<longrightarrow>
              \<not> isl (NewBoltStore w p)"
    using assms by (auto simp: NewCluster_def Let_def run_simps split: if_splits)
  have trans: "\<forall>b a p t. NewTCPTransportCall b a p t \<in> set (fst (NewCluster s w clusterNodes)) \<longrightarrow>
              \<not> isl (NewTCPTransport w b a p t)"
    using assms by (auto simp: NewCluster_def Let_def run_simps split: if_splits)
  have engine: "\<forall>cnf l st sn p t. NewRaftCall cnf l st sn p t \<in> set (fst (NewCluster s w clusterNodes)) \<longrightarrow>
              \<not> isl (NewRaft w cnf l st sn p t)"
    using assms by (auto simp: NewCluster_def Let_def run_simps split: if_splits)
  from host addr snap bolt trans engine show ?thesis by blast
qed

lemma NewCluster_SetPeers_unused:
  "NewCluster s (w\<lparr>SetPeers := answer\<rparr>) clusterNodes = NewCluster s w clusterNodes"
  by (simp add: NewCluster_def clusterTimeoutOf_def resolveBindHost_def andThen_def invoke_def
           cong: if_cong)

subsection \<open>Properties of the lifecycle loop\<close>

lemma pollLoop_returns:
  assumes cycle: "0 < cycle"
    and pause: "\<forall>t d. t + d \<le> Sleep t d"
    and working: "\<forall>t. now0 \<le> t \<and> t < cleared \<longrightarrow> IsWorking t"
    and clear: "\<forall>t. cleared \<le> t \<longrightarrow> \<not> IsWorking t"
  shows "now0 \<le> now \<Longrightarrow>
         \<exists>ret k. pollLoop IsWorking Sleep cycle now = Some ret \<and>
            ret = wakeAt Sleep cycle now k \<and> cleared \<le> ret \<and>
            (\<forall>j<k. wakeAt Sleep cycle now j < cleared) \<and>
            (cleared \<le> now \<longrightarrow> ret = now) \<and>
            ((\<forall>t. Sleep t cycle = t + cycle) \<and> now < cleared \<longrightarrow> ret < cleared + cycle)"
proof (induction "cleared - now" arbitrary: now rule: less_induct)
  case less
  show ?case
  proof (cases "now < cleared")
    case False
    then have "\<not> IsWorking now" using clear by simp
    then have "pollLoop IsWorking Sleep cycle now = Some now"
      by (simp add: pollLoop.simps)
    then have "pollLoop IsWorking Sleep cycle now = Some now \<and>
        now = wakeAt Sleep cycle now 0 \<and> cleared \<le> now \<and>
        (\<forall>j<0. wakeAt Sleep cycle now j < cleared) \<and>
        (cleared \<le> now \<longrightarrow> now = now) \<and>
        ((\<forall>t. Sleep t cycle = t + cycle) \<and> now < cleared \<longrightarrow> now < cleared + cycle)"
      using False by simp
    then show ?thesis by blast
  next
    case True
    define woken where "woken = Sleep now cycle"
    have later: "now + cycle \<le> woken"
      using pause by (simp add: woken_def)
    have flag: "IsWorking now" using working less.prems True by simp
    have smaller: "cleared - woken < cleared - now"
      using True cycle later by arith
    have "now0 \<le> woken" using less.prems later by simp
    from less.hyps [OF smaller this]
    obtain ret k where ret: "pollLoop IsWorking Sleep cycle woken = Some ret"
      and k: "ret = wakeAt Sleep cycle woken k"
      and after: "cleared \<le> ret"
      and before: "\<forall>j<k. wakeAt Sleep cycle woken j < cleared"
      and late: "cleared \<le> woken \<longrightarrow> ret = woken"
      and early: "(\<forall>t. Sleep t cycle = t + cycle) \<and> woken < cleared \<longrightarrow> ret < cleared + cycle"
      by blast
    have step: "pollLoop IsWorking Sleep cycle now = Some ret"
      using flag ret by (subst pollLoop.simps) (simp add: woken_def)
    have next_wake: "ret = wakeAt Sleep cycle now (Suc k)"
      using k by (simp add: woken_def)
    have earlier: "\<forall>j<Suc k. wakeAt Sleep cycle now j < cleared"
    proof (intro allI impI)
      fix j assume "j < Suc k"
      then show "wakeAt Sleep cycle now j < cleared"
        using before True by (cases j) (simp_all add: woken_def)
    qed
    have bound: "(\<forall>t. Sleep t cycle = t + cycle) \<and> now < cleared \<longrightarrow> ret < cleared + cycle"
    proof
      assume exact: "(\<forall>t. Sleep t cycle = t + cycle) \<and> now < cleared"
      then have on_time: "woken = now + cycle" by (simp add: woken_def)
      show "ret < cleared + cycle"
      proof (cases "woken < cleared")
        case True
        then show ?thesis using early exact by blast
      next
        case False
        then have "ret = woken" using late by simp
        then show ?thesis using on_time exact by simp
      qed
    qed
    have "pollLoop IsWorking Sleep cycle now = Some ret \<and>
        ret = wakeAt Sleep cycle now (Suc k) \<and> cleared \<le> ret \<and>
        (\<forall>j<Suc k. wakeAt Sleep cycle now j < cleared) \<and>
        (cleared \<le> now \<longrightarrow> ret = now) \<and>
        ((\<forall>t. Sleep t cycle = t + cycle) \<and> now < cleared \<longrightarrow> ret < cleared + cycle)"
      using step next_wake after earlier bound True by simp
    then show ?thesis by blast
  qed
qed

lemma pollLoop_ends_cleared:
  assumes "pollLoop IsWorking Sleep cycle now = Some ret"
  shows "(\<forall>t. t \<le> Sleep t cycle) \<longrightarrow> now \<le> ret \<and> \<not> IsWorking ret"
proof (rule pollLoop.raw_induct
    [where P = "\<lambda>w sl c n r. (\<forall>t. t \<le> sl t c) \<longrightarrow> n \<le> r \<and> \<not> w r", OF _ assms])
  fix f :: "(nat \<Rightarrow> bool) \<Rightarrow> (nat \<Rightarrow> nat \<Rightarrow> nat) \<Rightarrow> nat \<Rightarrow> nat \<Rightarrow> nat option"
    and w sl c n r
  assume IH: "\<And>w sl c n r. f w sl c n = Some r \<Longrightarrow>
      (\<forall>t. t \<le> sl t c) \<longrightarrow> n \<le> r \<and> \<not> w r"
    and body: "(if w n then f w sl c (sl n c) else Some n) = Some r"
  show "(\<forall>t. t \<le> sl t c) \<longrightarrow> n \<le> r \<and> \<not> w r"
  proof
    assume mono: "\<forall>t. t \<le> sl t c"
    show "n \<le> r \<and> \<not> w r"
    proof (cases "w n")
      case True
      then have "f w sl c (sl n c) = Some r" using body by simp
      then have "sl n c \<le> r \<and> \<not> w r" using IH mono by blast
      moreover have "n \<le> sl n c" using mono by simp
      ultimately show ?thesis by simp
    next
      case False
      then show ?thesis using body by simp
    qed
  qed
qed

lemma lateSleep_pauses: "t + d \<le> lateSleep t d"
  by (simp add: lateSleep_def)

section \<open>The claims\<close>

subsection \<open>The leadership watcher\<close>

text \<open>
  Claim C1. In every run of \<open>listenForLeadership\<close>, a true value received from the
  leadership channel makes the watcher construct and start exactly one worker, a false
  value makes it do nothing, and in both cases only the first value of the channel is
  consumed and the watcher ends; on a channel that never delivers it stays blocked.
\<close>

theorem listenForLeadership_single_shot:
  "listenForLeadership new (True # rest) = Some ([NewWorker, RunWorker new], rest) \<and>
   listenForLeadership new (False # rest) = Some ([], rest) \<and>
   listenForLeadership new [] = None"
  by (simp add: listenForLeadership_def receive_def onLeader_def declared_def)

theorem listenForLeadership_single_shot_witness:
  "listenForLeadership (1::nat) [True, False] = Some ([NewWorker, RunWorker 1], [False]) \<and>
   listenForLeadership (1::nat) [False, True] = Some ([], [True])"
  using listenForLeadership_single_shot [of "1::nat" "[False]"]
    listenForLeadership_single_shot [of "1::nat" "[True]"]
  by simp

text \<open>
  Claim C9. In \<open>listenForLeadership\<close> the local variable \<open>worker\<close> is nil whenever the guard
  \<open>worker != nil\<close> is evaluated, so the branch that stops an old worker never runs: whatever
  the channel delivers, the watcher stops no worker.
\<close>

theorem listenForLeadership_never_stops:
  "(\<forall>vars rest. receive declared LeaderCh = Some (vars, rest) \<longrightarrow> worker vars = None) \<and>
   (\<forall>acts rest old.
      listenForLeadership new LeaderCh = Some (acts, rest) \<longrightarrow> StopWorker old \<notin> set acts)"
  by (cases LeaderCh) (auto simp: listenForLeadership_def receive_def onLeader_def declared_def)

theorem listenForLeadership_never_stops_witness:
  "receive (declared :: nat locals) [True, True] =
     Some (\<lparr>becameLeader = True, worker = None\<rparr>, [True]) \<and>
   listenForLeadership (1::nat) [True, True] = Some ([NewWorker, RunWorker 1], [True]) \<and>
   StopWorker 1 \<notin> set [NewWorker, RunWorker (1::nat)]"
  using listenForLeadership_never_stops [of "[True, True]" "1::nat"]
  by (simp add: listenForLeadership_def receive_def onLeader_def declared_def)

subsection \<open>The address resolver\<close>

text \<open>
  Claim C3. When at least one interface exposes a non-empty address, \<open>getFirstLocalAddr\<close>
  should return the first non-empty textual address in enumeration order. On a host with
  a loopback interface followed by an Ethernet interface the code returns the address of
  the Ethernet interface, while the first address in enumeration order is the loopback one:
  the \<open>break\<close> leaves the inner loop only, and the next interface overwrites the result.
\<close>

theorem getFirstLocalAddr_last_interface_wins:
  "getFirstLocalAddr (Inr exampleIfaces) = (''192.168.1.5'', None) \<and>
   specFirstAddress exampleIfaces = Some ''127.0.0.1''"
  by (simp add: getFirstLocalAddr_def specFirstAddress_def yields_def exampleIfaces_def)

text \<open>
  Claim C5. For every enumeration of interfaces (with the textual addresses of the
  library, which are never empty), an error while reading the addresses of one interface
  is swallowed and that interface is skipped, so the result is the one of the readable
  interfaces alone; and \<open>getFirstLocalAddr\<close> fails, with its resolution error, exactly
  when no interface yields any non-empty address.
\<close>

theorem getFirstLocalAddr_skips_unreadable:
  assumes "textsNonEmpty ifaces"
  shows "getFirstLocalAddr (Inr ifaces) = getFirstLocalAddr (Inr (filter readable ifaces)) \<and>
         (getFirstLocalAddr (Inr ifaces) =
            ([], Some (Error ''Unable to find local address to bind''))
          \<longleftrightarrow> (\<forall>i \<in> set ifaces. yields i = [])) \<and>
         (snd (getFirstLocalAddr (Inr ifaces)) \<noteq> None
          \<longleftrightarrow> (\<forall>i \<in> set ifaces. yields i = []))"
  using scanIfaces_from_empty [OF assms]
  by (simp add: getFirstLocalAddr_def Let_def scanIfaces_skips_unreadable)

theorem getFirstLocalAddr_skips_unreadable_witness:
  "textsNonEmpty exampleIfacesUnreadable \<and>
   getFirstLocalAddr (Inr exampleIfacesUnreadable) = getFirstLocalAddr (Inr exampleIfaces) \<and>
   snd (getFirstLocalAddr (Inr exampleIfacesUnreadable)) = None \<and>
   textsNonEmpty exampleIfacesNoAddress \<and>
   getFirstLocalAddr (Inr exampleIfacesNoAddress) =
     ([], Some (Error ''Unable to find local address to bind''))"
proof -
  have texts: "textsNonEmpty exampleIfacesUnreadable"
    by (simp add: textsNonEmpty_def exampleIfacesUnreadable_def exampleIfaces_def)
  have texts': "textsNonEmpty exampleIfacesNoAddress"
    by (simp add: textsNonEmpty_def exampleIfacesNoAddress_def)
  have kept: "filter readable exampleIfacesUnreadable = exampleIfaces"
    by (simp add: exampleIfacesUnreadable_def exampleIfaces_def readable_def)
  have some: "\<not> (\<forall>i \<in> set exampleIfacesUnreadable. yields i = [])"
    by (simp add: exampleIfacesUnreadable_def exampleIfaces_def yields_def)
  have none: "\<forall>i \<in> set exampleIfacesNoAddress. yields i = []"
    by (simp add: exampleIfacesNoAddress_def yields_def)
  note readable_host = getFirstLocalAddr_skips_unreadable [OF texts]
  note bare_host = getFirstLocalAddr_skips_unreadable [OF texts']
  have skipped: "getFirstLocalAddr (Inr exampleIfacesUnreadable) =
      getFirstLocalAddr (Inr exampleIfaces)"
    using conjunct1 [OF readable_host] kept by simp
  have found: "snd (getFirstLocalAddr (Inr exampleIfacesUnreadable)) = None"
    using readable_host some by blast
  have failed: "getFirstLocalAddr (Inr exampleIfacesNoAddress) =
      ([], Some (Error ''Unable to find local address to bind''))"
    using bare_host none by blast
  show ?thesis
    using texts texts' skipped found failed by blast
qed

text \<open>
  Claim C10. Every execution of \<open>getFirstLocalAddr\<close> has exactly one of two outcomes: a
  non-empty address with a nil error, or the empty string with a non-nil error. It never
  returns an empty address with a nil error.
\<close>

theorem getFirstLocalAddr_outcomes:
  "((fst (getFirstLocalAddr ifs) \<noteq> [] \<and> snd (getFirstLocalAddr ifs) = None) \<or>
    (fst (getFirstLocalAddr ifs) = [] \<and> snd (getFirstLocalAddr ifs) \<noteq> None)) \<and>
   \<not> ((fst (getFirstLocalAddr ifs) \<noteq> [] \<and> snd (getFirstLocalAddr ifs) = None) \<and>
      (fst (getFirstLocalAddr ifs) = [] \<and> snd (getFirstLocalAddr ifs) \<noteq> None)) \<and>
   \<not> (fst (getFirstLocalAddr ifs) = [] \<and> snd (getFirstLocalAddr ifs) = None)"
  by (cases ifs) (simp_all add: getFirstLocalAddr_def Let_def)

theorem getFirstLocalAddr_outcomes_witness:
  "fst (getFirstLocalAddr (Inr exampleIfaces)) \<noteq> [] \<and>
   snd (getFirstLocalAddr (Inr exampleIfaces)) = None \<and>
   fst (getFirstLocalAddr (Inr exampleIfacesNoAddress)) = [] \<and>
   snd (getFirstLocalAddr (Inr exampleIfacesNoAddress)) \<noteq> None \<and>
   getFirstLocalAddr (Inl (Error ''route ip+net: netlinkrib: too many open files'')) =
     ([], Some (Error ''route ip+net: netlinkrib: too many open files''))"
  using getFirstLocalAddr_outcomes [of "Inr exampleIfaces"]
    getFirstLocalAddr_outcomes [of "Inr exampleIfacesNoAddress"]
  by (simp add: getFirstLocalAddr_def exampleIfaces_def exampleIfacesNoAddress_def)


subsection \<open>The bootstrap of the consensus participant\<close>

text \<open>
  Claim C2. For every peer list given to \<open>NewCluster\<close>: with at most one entry the
  configuration passed to the consensus engine has single-node mode enabled (and
  bootstrap after election not disabled); with more than one entry it is the default
  configuration, unchanged. That configuration is the one every call of \<open>NewRaft\<close>
  receives, and a run that returns a cluster has made that call.
\<close>

theorem NewCluster_election_policy:
  "(length clusterNodes \<le> 1 \<longrightarrow>
      EnableSingleNode (electionConfig (DefaultConfig w) clusterNodes) \<and>
      \<not> DisableBootstrapAfterElect (electionConfig (DefaultConfig w) clusterNodes)) \<and>
   (1 < length clusterNodes \<longrightarrow>
      electionConfig (DefaultConfig w) clusterNodes = DefaultConfig w) \<and>
   (\<forall>cnf l st sn p t.
      NewRaftCall cnf l st sn p t \<in> set (fst (NewCluster s w clusterNodes)) \<longrightarrow>
      cnf = electionConfig (DefaultConfig w) clusterNodes) \<and>
   (\<forall>c. snd (NewCluster s w clusterNodes) = Inr c \<longrightarrow>
      (\<exists>l st sn p t.
         NewRaftCall (electionConfig (DefaultConfig w) clusterNodes) l st sn p t
           \<in> set (fst (NewCluster s w clusterNodes))))"
proof -
  have policy: "(length clusterNodes \<le> 1 \<longrightarrow>
      EnableSingleNode (electionConfig (DefaultConfig w) clusterNodes) \<and>
      \<not> DisableBootstrapAfterElect (electionConfig (DefaultConfig w) clusterNodes)) \<and>
   (1 < length clusterNodes \<longrightarrow>
      electionConfig (DefaultConfig w) clusterNodes = DefaultConfig w)"
    by (simp add: electionConfig_def)
  have passed: "\<forall>cnf l st sn p t.
      NewRaftCall cnf l st sn p t \<in> set (fst (NewCluster s w clusterNodes)) \<longrightarrow>
      cnf = electionConfig (DefaultConfig w) clusterNodes"
    by (auto simp: NewCluster_def Let_def run_simps split: if_splits)
  have called: "\<forall>c. snd (NewCluster s w clusterNodes) = Inr c \<longrightarrow>
      (\<exists>l st sn p t.
         NewRaftCall (electionConfig (DefaultConfig w) clusterNodes) l st sn p t
           \<in> set (fst (NewCluster s w clusterNodes)))"
    by (auto simp: NewCluster_def Let_def run_simps split: if_splits)
  from policy passed called show ?thesis by blast
qed

theorem NewCluster_election_policy_witness:
  "length [''10.0.0.1:11291''] \<le> 1 \<and>
   electionConfig (DefaultConfig exampleWorld) [''10.0.0.1:11291''] =
     \<lparr>EnableSingleNode = True, DisableBootstrapAfterElect = False\<rparr> \<and>
   1 < length [''10.0.0.1:11291'', ''10.0.0.2:11291''] \<and>
   electionConfig (DefaultConfig exampleWorld) [''10.0.0.1:11291'', ''10.0.0.2:11291''] =
     \<lparr>EnableSingleNode = False, DisableBootstrapAfterElect = True\<rparr> \<and>
   (\<exists>l st sn p t.
      NewRaftCall \<lparr>EnableSingleNode = True, DisableBootstrapAfterElect = False\<rparr> l st sn p t
        \<in> set (fst (NewCluster exampleSettings exampleWorld [''10.0.0.1:11291''])))"
proof -
  have single: "electionConfig (DefaultConfig exampleWorld) [''10.0.0.1:11291''] =
     \<lparr>EnableSingleNode = True, DisableBootstrapAfterElect = False\<rparr>"
    by (simp add: electionConfig_def exampleWorld_def)
  have returned: "snd (NewCluster exampleSettings exampleWorld [''10.0.0.1:11291'']) =
     Inr (projr (snd (NewCluster exampleSettings exampleWorld [''10.0.0.1:11291''])))"
    by (simp add: exampleRun)
  have several: "electionConfig (DefaultConfig exampleWorld)
       [''10.0.0.1:11291'', ''10.0.0.2:11291''] =
     \<lparr>EnableSingleNode = False, DisableBootstrapAfterElect = True\<rparr>"
    using NewCluster_election_policy
      [of "[''10.0.0.1:11291'', ''10.0.0.2:11291'']" exampleWorld exampleSettings]
    by (simp add: exampleWorld_def)
  have called: "\<exists>l st sn p t.
      NewRaftCall (electionConfig (DefaultConfig exampleWorld) [''10.0.0.1:11291'']) l st sn p t
        \<in> set (fst (NewCluster exampleSettings exampleWorld [''10.0.0.1:11291'']))"
    using NewCluster_election_policy [of "[''10.0.0.1:11291'']" exampleWorld exampleSettings]
      returned by blast
  show ?thesis
    using single several called by simp
qed

text \<open>
  Claim C4. Any failure at any step of the bootstrap in \<open>NewCluster\<close> should be fatal,
  the persisting of the seeded peer registry included. When \<open>SetPeers\<close> fails and every
  other call succeeds, the code makes the call, drops its error, and returns a cluster
  exactly as in the run where \<open>SetPeers\<close> succeeds.
\<close>

theorem NewCluster_ignores_SetPeers_failure:
  "SetPeers exampleWorldPeersFail
     (JSONPeers ''/var/lib/kandalf''
       (TCPTransport ''10.0.0.1:11291'' (TCPAddr ''10.0.0.1:11291'') 3 10000000000))
     [''10.0.0.1:11291''] =
     Some (Error ''open /var/lib/kandalf/peers.json: permission denied'') \<and>
   SetPeersCall
     (JSONPeers ''/var/lib/kandalf''
       (TCPTransport ''10.0.0.1:11291'' (TCPAddr ''10.0.0.1:11291'') 3 10000000000))
     [''10.0.0.1:11291'']
     \<in> set (fst (NewCluster exampleSettings exampleWorldPeersFail [''10.0.0.1:11291''])) \<and>
   NewCluster exampleSettings exampleWorldPeersFail [''10.0.0.1:11291''] =
     NewCluster exampleSettings exampleWorld [''10.0.0.1:11291''] \<and>
   \<not> isl (snd (NewCluster exampleSettings exampleWorldPeersFail [''10.0.0.1:11291'']))"
proof -
  have same: "NewCluster exampleSettings exampleWorldPeersFail [''10.0.0.1:11291''] =
     NewCluster exampleSettings exampleWorld [''10.0.0.1:11291'']"
    by (simp add: exampleRun)
       (simp add: run_defs exampleWorldPeersFail_def exampleWorld_def exampleSettings_def)
  show ?thesis
    unfolding same by (simp add: exampleRun) (simp add: exampleWorldPeersFail_def)
qed

text \<open>
  Claim C6. For every configured \<open>cluster.timeout\<close> string that fails to parse as a
  duration, the timeout that \<open>NewCluster\<close> uses, and hands to the transport, is ten seconds,
  and the parse failure raises no fatal error: the run is the one of a configuration whose
  timeout parses to ten seconds.
\<close>

theorem NewCluster_timeout_fallback:
  assumes "ParseDuration w (timeout s) = Inl err"
  shows "clusterTimeoutOf s w = 10 * Second \<and>
         (\<forall>b a p t.
            NewTCPTransportCall b a p t \<in> set (fst (NewCluster s w clusterNodes)) \<longrightarrow>
            t = 10000000000) \<and>
         NewCluster s w clusterNodes =
           NewCluster s (w\<lparr>ParseDuration := \<lambda>x. Inr (10 * Second)\<rparr>) clusterNodes"
proof -
  have fallback: "clusterTimeoutOf s w = 10 * Second"
    using assms by (simp add: clusterTimeoutOf_def)
  have used: "\<forall>b a p t.
      NewTCPTransportCall b a p t \<in> set (fst (NewCluster s w clusterNodes)) \<longrightarrow>
      t = 10000000000"
    using fallback by (auto simp: NewCluster_def Let_def run_simps Second_def split: if_splits)
  have same: "NewCluster s w clusterNodes =
      NewCluster s (w\<lparr>ParseDuration := \<lambda>x. Inr (10 * Second)\<rparr>) clusterNodes"
    using assms
    by (simp add: NewCluster_def clusterTimeoutOf_def resolveBindHost_def cong: if_cong)
  from fallback used same show ?thesis by blast
qed

theorem NewCluster_timeout_fallback_witness:
  "ParseDuration exampleWorld (timeout exampleSettings) = Inl (Error ''time: invalid duration'') \<and>
   timeout exampleSettings = ''not-a-duration'' \<and>
   clusterTimeoutOf exampleSettings exampleWorld = 10000000000 \<and>
   NewTCPTransportCall ''10.0.0.1:11291'' (TCPAddr ''10.0.0.1:11291'') 3 10000000000
     \<in> set (fst (NewCluster exampleSettings exampleWorld [''10.0.0.1:11291''])) \<and>
   \<not> isl (snd (NewCluster exampleSettings exampleWorld [''10.0.0.1:11291'']))"
proof -
  have parse: "ParseDuration exampleWorld (timeout exampleSettings) =
      Inl (Error ''time: invalid duration'')"
    by (simp add: exampleWorld_def exampleSettings_def)
  have configured: "timeout exampleSettings = ''not-a-duration''"
    by (simp add: exampleSettings_def)
  have run: "NewTCPTransportCall ''10.0.0.1:11291'' (TCPAddr ''10.0.0.1:11291'') 3 10000000000
       \<in> set (fst (NewCluster exampleSettings exampleWorld [''10.0.0.1:11291''])) \<and>
     \<not> isl (snd (NewCluster exampleSettings exampleWorld [''10.0.0.1:11291'']))"
    by (simp add: exampleRun)
  have "clusterTimeoutOf exampleSettings exampleWorld = 10 * Second"
    using NewCluster_timeout_fallback [OF parse, of "[''10.0.0.1:11291'']"] by (rule conjunct1)
  then show ?thesis
    using parse configured run by (simp add: Second_def)
qed

text \<open>
  Claim C7. In \<open>NewCluster\<close>, a non-empty configured \<open>cluster.bind_host\<close> is used as it is
  and \<open>getFirstLocalAddr\<close> is not called; with an empty one the host is the one
  \<open>getFirstLocalAddr\<close> returns, and its failure is fatal; the bind string, which is what
  \<open>ResolveTCPAddr\<close> receives, is the chosen host, a colon and the configured port.
\<close>

theorem NewCluster_bind_address:
  "(bind_host s \<noteq> [] \<longrightarrow>
      GetFirstLocalAddrCall \<notin> set (fst (NewCluster s w clusterNodes)) \<and>
      ResolveTCPAddrCall (bind_host s @ '':'' @ formatInt (bind_port s))
        \<in> set (fst (NewCluster s w clusterNodes))) \<and>
   (bind_host s = [] \<longrightarrow>
      (\<forall>r e. getFirstLocalAddr (Interfaces w) = (r, Some e) \<longrightarrow>
         NewCluster s w clusterNodes =
           ([ParseDurationCall (timeout s), GetFirstLocalAddrCall],
            Inl (Fatal ''An error occured while getting local address'' e))) \<and>
      (\<forall>h. getFirstLocalAddr (Interfaces w) = (h, None) \<longrightarrow>
         GetFirstLocalAddrCall \<in> set (fst (NewCluster s w clusterNodes)) \<and>
         ResolveTCPAddrCall (h @ '':'' @ formatInt (bind_port s))
           \<in> set (fst (NewCluster s w clusterNodes)))) \<and>
   (\<forall>b. ResolveTCPAddrCall b \<in> set (fst (NewCluster s w clusterNodes)) \<longrightarrow>
      (\<exists>h. b = h @ '':'' @ formatInt (bind_port s) \<and>
           (if bind_host s = [] then getFirstLocalAddr (Interfaces w) = (h, None)
            else h = bind_host s)))"
proof -
  have configured: "bind_host s \<noteq> [] \<longrightarrow>
      GetFirstLocalAddrCall \<notin> set (fst (NewCluster s w clusterNodes)) \<and>
      ResolveTCPAddrCall (bind_host s @ '':'' @ formatInt (bind_port s))
        \<in> set (fst (NewCluster s w clusterNodes))"
    by (simp add: NewCluster_def Let_def run_simps sprintfHostPort_def)
  have failed: "bind_host s = [] \<longrightarrow>
      (\<forall>r e. getFirstLocalAddr (Interfaces w) = (r, Some e) \<longrightarrow>
         NewCluster s w clusterNodes =
           ([ParseDurationCall (timeout s), GetFirstLocalAddrCall],
            Inl (Fatal ''An error occured while getting local address'' e)))"
    by (simp add: NewCluster_def Let_def andThen_def invoke_def resolveBindHost_def)
  have resolved: "bind_host s = [] \<longrightarrow>
      (\<forall>h. getFirstLocalAddr (Interfaces w) = (h, None) \<longrightarrow>
         GetFirstLocalAddrCall \<in> set (fst (NewCluster s w clusterNodes)) \<and>
         ResolveTCPAddrCall (h @ '':'' @ formatInt (bind_port s))
           \<in> set (fst (NewCluster s w clusterNodes)))"
    by (simp add: NewCluster_def Let_def run_simps sprintfHostPort_def)
  have only: "\<forall>b. ResolveTCPAddrCall b \<in> set (fst (NewCluster s w clusterNodes)) \<longrightarrow>
      (\<exists>h. b = h @ '':'' @ formatInt (bind_port s) \<and>
           (if bind_host s = [] then getFirstLocalAddr (Interfaces w) = (h, None)
            else h = bind_host s))"
    by (auto simp: NewCluster_def Let_def run_simps sprintfHostPort_def split: if_splits)
  from configured failed resolved only show ?thesis by blast
qed

theorem NewCluster_bind_address_witness:
  "bind_host exampleSettings \<noteq> [] \<and>
   GetFirstLocalAddrCall
     \<notin> set (fst (NewCluster exampleSettings exampleWorld [''10.0.0.1:11291''])) \<and>
   ResolveTCPAddrCall ''10.0.0.1:11291''
     \<in> set (fst (NewCluster exampleSettings exampleWorld [''10.0.0.1:11291''])) \<and>
   bind_host (exampleSettings\<lparr>bind_host := []\<rparr>) = [] \<and>
   getFirstLocalAddr (Interfaces exampleWorld) = (''192.168.1.5'', None) \<and>
   ResolveTCPAddrCall ''192.168.1.5:11291''
     \<in> set (fst (NewCluster (exampleSettings\<lparr>bind_host := []\<rparr>) exampleWorld
                   [''10.0.0.1:11291''])) \<and>
   getFirstLocalAddr (Interfaces (exampleWorld\<lparr>Interfaces := Inr []\<rparr>)) =
     ([], Some (Error ''Unable to find local address to bind'')) \<and>
   NewCluster (exampleSettings\<lparr>bind_host := []\<rparr>) (exampleWorld\<lparr>Interfaces := Inr []\<rparr>)
       [''10.0.0.1:11291''] =
     ([ParseDurationCall ''not-a-duration'', GetFirstLocalAddrCall],
      Inl (Fatal ''An error occured while getting local address''
             (Error ''Unable to find local address to bind'')))"
proof -
  have host: "bind_host exampleSettings = ''10.0.0.1''"
    and port: "bind_port exampleSettings = 11291"
    and parsed: "timeout exampleSettings = ''not-a-duration''"
    by (simp_all add: exampleSettings_def)
  have digits: "formatInt 11291 = ''11291''"
    by (simp add: formatInt_def natDigits.simps)
  have empty_host: "getFirstLocalAddr (Inr []) =
      ([], Some (Error ''Unable to find local address to bind''))"
    by (simp add: getFirstLocalAddr_def)
  note given = NewCluster_bind_address
    [of exampleSettings exampleWorld "[''10.0.0.1:11291'']"]
  note found = NewCluster_bind_address
    [of "exampleSettings\<lparr>bind_host := []\<rparr>" exampleWorld "[''10.0.0.1:11291'']"]
  note lost = NewCluster_bind_address
    [of "exampleSettings\<lparr>bind_host := []\<rparr>" "exampleWorld\<lparr>Interfaces := Inr []\<rparr>"
        "[''10.0.0.1:11291'']"]
  have a: "GetFirstLocalAddrCall
      \<notin> set (fst (NewCluster exampleSettings exampleWorld [''10.0.0.1:11291''])) \<and>
    ResolveTCPAddrCall ''10.0.0.1:11291''
      \<in> set (fst (NewCluster exampleSettings exampleWorld [''10.0.0.1:11291'']))"
    using given by (simp add: host port digits)
  have b: "ResolveTCPAddrCall ''192.168.1.5:11291''
     \<in> set (fst (NewCluster (exampleSettings\<lparr>bind_host := []\<rparr>) exampleWorld
                   [''10.0.0.1:11291'']))"
    using exampleResolved found by (simp add: port digits)
  have c: "NewCluster (exampleSettings\<lparr>bind_host := []\<rparr>) (exampleWorld\<lparr>Interfaces := Inr []\<rparr>)
       [''10.0.0.1:11291''] =
     ([ParseDurationCall ''not-a-duration'', GetFirstLocalAddrCall],
      Inl (Fatal ''An error occured while getting local address''
             (Error ''Unable to find local address to bind'')))"
    using lost by (simp add: parsed empty_host)
  show ?thesis
    using a b c exampleResolved by (simp add: host empty_host)
qed

subsection \<open>The lifecycle\<close>

text \<open>
  Claim C8, as stated: once the flag \<open>IsWorking\<close> is cleared, \<open>doRun\<close> returns within one
  cycle interval. It fails when a sleep ends late: with a cycle of 10, the flag cleared at
  instant 1 and sleeps that end two ticks after their time, \<open>doRun\<close> returns at instant 12,
  which is 11 after the clearing.
\<close>

theorem doRun_late_wake_counterexample:
  "snd (doRun (clearedAt 1) lateSleep 10 0) = Some 12 \<and>
   \<not> returnsWithinOneCycle (clearedAt 1) lateSleep 10 0 1"
  by (simp add: returnsWithinOneCycle_def doRun_def pollLoop.simps clearedAt_def lateSleep_def)

text \<open>
  Claim C8, amended. In every execution of \<open>doRun\<close>, with sleeps that pause for at least
  their argument: when the flag \<open>IsWorking\<close>, set since the start, is cleared at some
  instant and stays cleared, the loop ends at its next wake, the first one at or after the
  clearing, and \<open>doRun\<close> returns then; when every sleep lasts exactly the cycle interval,
  that is less than one cycle interval after the clearing. While the flag stays set,
  \<open>doRun\<close> never returns.
\<close>

theorem doRun_returns_at_next_wake:
  "(0 < cycle \<and> (\<forall>t d. t + d \<le> Sleep t d) \<and> now \<le> cleared \<and>
      (\<forall>t. now \<le> t \<and> t < cleared \<longrightarrow> IsWorking t) \<and>
      (\<forall>t. cleared \<le> t \<longrightarrow> \<not> IsWorking t) \<longrightarrow>
      (\<exists>ret k. snd (doRun IsWorking Sleep cycle now) = Some ret \<and>
         ret = wakeAt Sleep cycle now k \<and> cleared \<le> ret \<and>
         (\<forall>j<k. wakeAt Sleep cycle now j < cleared) \<and>
         ((\<forall>t. Sleep t cycle = t + cycle) \<longrightarrow> ret < cleared + cycle))) \<and>
   ((\<forall>t d. t + d \<le> Sleep t d) \<and> (\<forall>t. now \<le> t \<longrightarrow> IsWorking t) \<longrightarrow>
      snd (doRun IsWorking Sleep cycle now) = None)"
proof (intro conjI impI)
  assume h: "0 < cycle \<and> (\<forall>t d. t + d \<le> Sleep t d) \<and> now \<le> cleared \<and>
      (\<forall>t. now \<le> t \<and> t < cleared \<longrightarrow> IsWorking t) \<and>
      (\<forall>t. cleared \<le> t \<longrightarrow> \<not> IsWorking t)"
  then have "\<exists>ret k. pollLoop IsWorking Sleep cycle now = Some ret \<and>
            ret = wakeAt Sleep cycle now k \<and> cleared \<le> ret \<and>
            (\<forall>j<k. wakeAt Sleep cycle now j < cleared) \<and>
            (cleared \<le> now \<longrightarrow> ret = now) \<and>
            ((\<forall>t. Sleep t cycle = t + cycle) \<and> now < cleared \<longrightarrow> ret < cleared + cycle)"
    using pollLoop_returns [of cycle Sleep now cleared IsWorking now] by blast
  then obtain ret k where r: "pollLoop IsWorking Sleep cycle now = Some ret"
     "ret = wakeAt Sleep cycle now k" "cleared \<le> ret"
     "\<forall>j<k. wakeAt Sleep cycle now j < cleared"
     "cleared \<le> now \<longrightarrow> ret = now"
     "(\<forall>t. Sleep t cycle = t + cycle) \<and> now < cleared \<longrightarrow> ret < cleared + cycle"
    by blast
  have bound: "(\<forall>t. Sleep t cycle = t + cycle) \<longrightarrow> ret < cleared + cycle"
    using r(5,6) h by (cases "now < cleared") auto
  have "snd (doRun IsWorking Sleep cycle now) = Some ret \<and>
         ret = wakeAt Sleep cycle now k \<and> cleared \<le> ret \<and>
         (\<forall>j<k. wakeAt Sleep cycle now j < cleared) \<and>
         ((\<forall>t. Sleep t cycle = t + cycle) \<longrightarrow> ret < cleared + cycle)"
    using r(1,2,3,4) bound by (simp add: doRun_def)
  then show "\<exists>ret k. snd (doRun IsWorking Sleep cycle now) = Some ret \<and>
         ret = wakeAt Sleep cycle now k \<and> cleared \<le> ret \<and>
         (\<forall>j<k. wakeAt Sleep cycle now j < cleared) \<and>
         ((\<forall>t. Sleep t cycle = t + cycle) \<longrightarrow> ret < cleared + cycle)"
    by blast
next
  assume always: "(\<forall>t d. t + d \<le> Sleep t d) \<and> (\<forall>t. now \<le> t \<longrightarrow> IsWorking t)"
  then have mono: "\<forall>t. t \<le> Sleep t cycle"
    by (meson add_leD1)
  show "snd (doRun IsWorking Sleep cycle now) = None"
  proof (cases "pollLoop IsWorking Sleep cycle now")
    case None
    then show ?thesis by (simp add: doRun_def)
  next
    case (Some ret)
    then have "now \<le> ret \<and> \<not> IsWorking ret"
      using pollLoop_ends_cleared mono by blast
    then show ?thesis using always by blast
  qed
qed

theorem doRun_returns_at_next_wake_witness:
  "(\<exists>ret k. snd (doRun (clearedAt 1) lateSleep 10 0) = Some ret \<and>
      ret = wakeAt lateSleep 10 0 k \<and> 1 \<le> ret \<and>
      (\<forall>j<k. wakeAt lateSleep 10 0 j < 1)) \<and>
   (\<exists>ret k. snd (doRun (clearedAt 25) exactSleep 10 0) = Some ret \<and>
      ret = wakeAt exactSleep 10 0 k \<and> 25 \<le> ret \<and>
      (\<forall>j<k. wakeAt exactSleep 10 0 j < 25) \<and> ret < 25 + 10) \<and>
   snd (doRun neverCleared exactSleep 10 0) = None"
proof -
  have late: "\<exists>ret k. snd (doRun (clearedAt 1) lateSleep 10 0) = Some ret \<and>
      ret = wakeAt lateSleep 10 0 k \<and> 1 \<le> ret \<and>
      (\<forall>j<k. wakeAt lateSleep 10 0 j < 1)"
    using doRun_returns_at_next_wake [of 10 lateSleep 0 1 "clearedAt 1"]
    by (simp add: lateSleep_def clearedAt_def)
  have exact: "\<exists>ret k. snd (doRun (clearedAt 25) exactSleep 10 0) = Some ret \<and>
      ret = wakeAt exactSleep 10 0 k \<and> 25 \<le> ret \<and>
      (\<forall>j<k. wakeAt exactSleep 10 0 j < 25) \<and> ret < 25 + 10"
    using doRun_returns_at_next_wake [of 10 exactSleep 0 25 "clearedAt 25"]
    by (simp add: exactSleep_def clearedAt_def)
  have never: "snd (doRun neverCleared exactSleep 10 0) = None"
    using doRun_returns_at_next_wake [of 10 exactSleep 0 25 neverCleared]
    by (simp add: exactSleep_def neverCleared_def)
  from late exact never show ?thesis by blast
qed

end
